theory Spec2Isabelle
  imports Complex_Main
begin

section \<open>Metric functions (services/api/src/utils/metrics.ts)\<close>

text \<open>
  A JavaScript \<open>number\<close> is modelled as a \<open>real\<close>: sums, products, quotients, square
  roots and logarithms are the exact ones. Rounding, overflow to \<open>Infinity\<close> and \<open>NaN\<close>
  are outside this model. A \<open>number[]\<close> is a \<open>real list\<close>. Properties of the returned
  number that rounding or overflow can break in the code (the range of the cosine, the
  zero divergence of an input from itself, invariance under rescaling) are not stated
  over this model.

  A \<open>throw new Error(msg)\<close> is the value \<open>Inl (Error msg)\<close>; a returned number \<open>r\<close> is
  \<open>Inr r\<close>.
\<close>

datatype error = Error string

text \<open>
  The loop of \<open>calculateCosineSimilarity\<close>: for \<open>i\<close> from \<open>0\<close> below
  \<open>vectorA.length\<close>, three accumulators are updated from \<open>vectorA[i]\<close> and
  \<open>vectorB[i]\<close>. It runs only after the length check, so every index is in range of
  both arrays.
\<close>

definition cosine_step :: "real list \<Rightarrow> real list \<Rightarrow> nat \<Rightarrow> real \<times> real \<times> real \<Rightarrow> real \<times> real \<times> real" where
  "cosine_step vectorA vectorB i acc =
     (case acc of (dotProduct, magnitudeA, magnitudeB) \<Rightarrow>
        (dotProduct + vectorA ! i * vectorB ! i,
         magnitudeA + vectorA ! i * vectorA ! i,
         magnitudeB + vectorB ! i * vectorB ! i))"

definition cosine_loop :: "real list \<Rightarrow> real list \<Rightarrow> real \<times> real \<times> real" where
  "cosine_loop vectorA vectorB =
     fold (cosine_step vectorA vectorB) [0..<length vectorA] (0, 0, 0)"

definition calculateCosineSimilarity :: "real list \<Rightarrow> real list \<Rightarrow> error + real" where
  "calculateCosineSimilarity vectorA vectorB =
     (if length vectorA \<noteq> length vectorB
      then Inl (Error ''Vectors must have the same length'')
      else
        (case cosine_loop vectorA vectorB of (dotProduct, sqA, sqB) \<Rightarrow>
           let magnitudeA = sqrt sqA;
               magnitudeB = sqrt sqB
           in if magnitudeA = 0 \<or> magnitudeB = 0 then Inr 0
              else Inr (dotProduct / (magnitudeA * magnitudeB))))"

text \<open>
  \<open>calculateKLDivergence\<close>: \<open>p.reduce((acc, val) => acc + val, 0)\<close> is a left fold;
  \<open>epsilon\<close> is the constant \<open>1e-10\<close>; the loop adds a term only where the normalised
  \<open>p\<close> entry exceeds \<open>epsilon\<close>, with the normalised \<open>q\<close> entry floored at \<open>epsilon\<close>.
\<close>

definition epsilon :: real where
  "epsilon = 1 / 10 ^ 10"

definition reduce_sum :: "real list \<Rightarrow> real" where
  "reduce_sum p = foldl (\<lambda>acc val. acc + val) 0 p"

definition kl_step :: "real list \<Rightarrow> real list \<Rightarrow> nat \<Rightarrow> real \<Rightarrow> real" where
  "kl_step normalizedP normalizedQ i divergence =
     (if normalizedP ! i > epsilon
      then let qVal = max (normalizedQ ! i) epsilon
           in divergence + normalizedP ! i * ln (normalizedP ! i / qVal)
      else divergence)"

definition kl_loop :: "real list \<Rightarrow> real list \<Rightarrow> real" where
  "kl_loop normalizedP normalizedQ =
     fold (kl_step normalizedP normalizedQ) [0..<length normalizedP] 0"

definition calculateKLDivergence :: "real list \<Rightarrow> real list \<Rightarrow> error + real" where
  "calculateKLDivergence p q =
     (if length p \<noteq> length q
      then Inl (Error ''Distributions must have the same length'')
      else
        let sumP = reduce_sum p;
            sumQ = reduce_sum q
        in if sumP = 0 \<or> sumQ = 0
           then Inl (Error ''Distributions cannot sum to zero'')
           else
             let normalizedP = map (\<lambda>val. val / sumP) p;
                 normalizedQ = map (\<lambda>val. val / sumQ) q
             in Inr (kl_loop normalizedP normalizedQ))"


section \<open>The worker: scheduled drift checks and startup\<close>

text \<open>
  The worker process talks to the computation service over HTTP and to the database
  through \<open>pool.query\<close>. Its state is the record \<open>world\<close>: the two tables it writes, the
  requests it has posted to \<open>/compute_drift\<close>, the console lines it has printed, and a
  clock in milliseconds that only \<open>setTimeout\<close> advances. What the outside answers is the
  record \<open>env\<close>: every call may fail, and its answer may depend on the time of the call.
  The formatting built-ins \<open>toFixed\<close> and \<open>toISOString\<close> are parameters of \<open>env\<close>.
  A rejected promise is \<open>Inl err\<close>; the state reached when it was rejected is kept.
\<close>

record drift_config =
  windowMinutes :: nat
  baselineMinutes :: nat
  criticalThreshold :: real
  cronSchedule :: string

definition DRIFT_CONFIG :: drift_config where
  "DRIFT_CONFIG = \<lparr> windowMinutes = 60, baselineMinutes = 1440,
                    criticalThreshold = 5 / 10, cronSchedule = ''*/5 * * * *'' \<rparr>"

text \<open>A row of \<open>SELECT id, name FROM models\<close>.\<close>

record model =
  m_id :: nat
  m_name :: string

text \<open>The body of the computation service's answer to \<open>POST /compute_drift\<close>.\<close>

record drift =
  window_start :: string
  window_end :: string
  kl_divergence :: real
  cosine_similarity :: real
  drift_detected :: bool

record drift_request =
  rq_model_id :: nat
  rq_window_minutes :: nat
  rq_baseline_minutes :: nat

text \<open>Rows of the tables \<open>drift_runs\<close> and \<open>alerts\<close>, with the columns the code writes or reads.\<close>

record drift_run =
  dr_id :: nat
  dr_model_id :: nat
  dr_window_start :: string
  dr_window_end :: string
  dr_kl_divergence :: real
  dr_cosine_similarity :: real
  dr_drift_detected :: bool
  dr_created_at :: nat

record alert =
  al_model_id :: nat
  al_drift_run_id :: nat
  al_severity :: string
  al_message :: string

record world =
  now :: nat
  drift_runs :: "drift_run list"
  next_drift_run_id :: nat
  alerts :: "alert list"
  posts :: "drift_request list"
  console :: "string list"

record env =
  toFixed :: "real \<Rightarrow> nat \<Rightarrow> string"
  toISOString :: "nat \<Rightarrow> string"
  health_ok :: "nat \<Rightarrow> bool"
  select1_ok :: "nat \<Rightarrow> bool"
  compute_drift_response :: "nat \<Rightarrow> drift_request \<Rightarrow> error + drift"
  select_models :: "nat \<Rightarrow> error + model list"
  insert_drift_run_error :: "nat \<Rightarrow> nat \<Rightarrow> error option"
  insert_alert_error :: "nat \<Rightarrow> nat \<Rightarrow> error option"

definition console_log :: "string \<Rightarrow> world \<Rightarrow> world" where
  "console_log line w = w\<lparr>console := console w @ [line]\<rparr>"

definition message_of :: "error \<Rightarrow> string" where
  "message_of e = (case e of Error msg \<Rightarrow> msg)"

text \<open>
  How a template literal prints a non-negative integer (its decimal digits, most
  significant first) and a boolean.
\<close>

definition digit_char :: "nat \<Rightarrow> char" where
  "digit_char d = char_of (d + 48)"

function decimal :: "nat \<Rightarrow> string" where
  "decimal n =
     (if n div 10 = 0 then [digit_char n]
      else decimal (n div 10) @ [digit_char (n mod 10)])"
  by pat_completeness auto
termination
  by (relation "measure (\<lambda>n. n)") auto

declare decimal.simps [simp del]

definition string_of_bool :: "bool \<Rightarrow> string" where
  "string_of_bool b = (if b then ''true'' else ''false'')"

definition computeDrift :: "env \<Rightarrow> nat \<Rightarrow> world \<Rightarrow> (error + drift) \<times> world" where
  "computeDrift e modelId w =
     (let request = \<lparr> rq_model_id = modelId,
                       rq_window_minutes = windowMinutes DRIFT_CONFIG,
                       rq_baseline_minutes = baselineMinutes DRIFT_CONFIG \<rparr>
      in (compute_drift_response e (now w) request, w\<lparr>posts := posts w @ [request]\<rparr>))"

text \<open>
  \<open>INSERT INTO drift_runs ... RETURNING id\<close>: the new row takes the next value of the
  \<open>SERIAL\<close> column and the current time; a failed insert changes nothing.
\<close>

definition storeDriftRun :: "env \<Rightarrow> nat \<Rightarrow> drift \<Rightarrow> world \<Rightarrow> (error + nat) \<times> world" where
  "storeDriftRun e modelId d w =
     (case insert_drift_run_error e (now w) modelId of
        Some err \<Rightarrow> (Inl err, w)
      | None \<Rightarrow>
          let row = \<lparr> dr_id = next_drift_run_id w, dr_model_id = modelId,
                      dr_window_start = window_start d, dr_window_end = window_end d,
                      dr_kl_divergence = kl_divergence d,
                      dr_cosine_similarity = cosine_similarity d,
                      dr_drift_detected = drift_detected d, dr_created_at = now w \<rparr>
          in (Inr (dr_id row),
              w\<lparr>drift_runs := drift_runs w @ [row],
                next_drift_run_id := Suc (next_drift_run_id w)\<rparr>))"

definition createAlert :: "env \<Rightarrow> nat \<Rightarrow> nat \<Rightarrow> drift \<Rightarrow> string \<Rightarrow> world \<Rightarrow> (error + unit) \<times> world" where
  "createAlert e modelId driftRunId d modelName w =
     (let severity = (if kl_divergence d > criticalThreshold DRIFT_CONFIG
                      then ''critical'' else ''warning'');
          message = ''Drift detected: '' @ modelName @ '' (KL='' @ toFixed e (kl_divergence d) 4
                    @ '', cosine='' @ toFixed e (cosine_similarity d) 4 @ '')''
      in case insert_alert_error e (now w) modelId of
           Some err \<Rightarrow> (Inl err, w)
         | None \<Rightarrow>
             (Inr (),
              console_log (''[ALERT] '' @ severity @ '': '' @ message)
                (w\<lparr>alerts := alerts w @ [\<lparr> al_model_id = modelId, al_drift_run_id = driftRunId,
                                            al_severity = severity, al_message = message \<rparr>]\<rparr>)))"

definition checkModel :: "env \<Rightarrow> model \<Rightarrow> world \<Rightarrow> (error + unit) \<times> world" where
  "checkModel e m w =
     (case computeDrift e (m_id m) w of
        (Inl err, w1) \<Rightarrow> (Inl err, w1)
      | (Inr d, w1) \<Rightarrow>
          let w2 = console_log (''['' @ m_name m @ ''] KL='' @ toFixed e (kl_divergence d) 4
                     @ '' cosine='' @ toFixed e (cosine_similarity d) 4
                     @ '' drift='' @ string_of_bool (drift_detected d)) w1
          in case storeDriftRun e (m_id m) d w2 of
               (Inl err, w3) \<Rightarrow> (Inl err, w3)
             | (Inr driftRunId, w3) \<Rightarrow>
                 if drift_detected d then createAlert e (m_id m) driftRunId d (m_name m) w3
                 else (Inr (), w3))"

text \<open>
  The \<open>for (const model of models) await checkModel(model)\<close> loop of \<open>runDriftCheck\<close>.
  The loop stands inside the \<open>try\<close> block and has no handler of its own, so a rejection
  of \<open>checkModel\<close> leaves the loop.
\<close>

fun checkModels :: "env \<Rightarrow> model list \<Rightarrow> world \<Rightarrow> (error + unit) \<times> world" where
  "checkModels e [] w = (Inr (), w)"
| "checkModels e (m # ms) w =
     (case checkModel e m w of
        (Inl err, w1) \<Rightarrow> (Inl err, w1)
      | (Inr u, w1) \<Rightarrow> checkModels e ms w1)"

definition runDriftCheck :: "env \<Rightarrow> world \<Rightarrow> world" where
  "runDriftCheck e w =
     (let timestamp = toISOString e (now w);
          w0 = console_log (''['' @ timestamp @ ''] Starting drift check'') w
      in case select_models e (now w0) of
           Inl err \<Rightarrow> console_log (''['' @ timestamp @ ''] Error: '' @ message_of err) w0
         | Inr models \<Rightarrow>
             (case checkModels e models w0 of
                (Inl err, w1) \<Rightarrow> console_log (''['' @ timestamp @ ''] Error: '' @ message_of err) w1
              | (Inr u, w1) \<Rightarrow> console_log (''['' @ timestamp @ ''] Drift check complete'') w1))"

text \<open>
  The loop of \<open>waitForServices\<close>, \<open>for (let i = maxRetries; i > 0; i--)\<close>: an attempt
  succeeds when \<open>GET /health\<close> and then \<open>SELECT 1\<close> both succeed; otherwise the \<open>catch\<close>
  prints the attempts left and sleeps \<open>delayMs\<close>. After the loop the function throws.
\<close>

fun wait_loop :: "env \<Rightarrow> nat \<Rightarrow> nat \<Rightarrow> world \<Rightarrow> (error + unit) \<times> world" where
  "wait_loop e delayMs 0 w = (Inl (Error ''Services unavailable''), w)"
| "wait_loop e delayMs (Suc i) w =
     (if health_ok e (now w) \<and> select1_ok e (now w)
      then (Inr (), console_log ''Services ready'' w)
      else wait_loop e delayMs i
             ((console_log (''Retrying... ('' @ decimal i @ '' attempts left)'') w)
                \<lparr>now := now w + delayMs\<rparr>))"

definition waitForServices :: "env \<Rightarrow> nat \<Rightarrow> nat \<Rightarrow> world \<Rightarrow> (error + unit) \<times> world" where
  "waitForServices e maxRetries delayMs w =
     wait_loop e delayMs maxRetries (console_log ''Waiting for services...'' w)"

text \<open>
  \<open>main\<close> calls \<open>waitForServices()\<close> with its default arguments \<open>30\<close> and \<open>2000\<close>. A
  rejection reaches \<open>main().catch\<close>, which prints \<open>Fatal:\<close> and calls \<open>process.exit(1)\<close>.
  Otherwise the first cycle runs, the schedule is registered and the process keeps running.
\<close>

datatype process = Exited nat world | Running world

definition main :: "env \<Rightarrow> world \<Rightarrow> process" where
  "main e w =
     (case waitForServices e 30 2000 w of
        (Inl err, w1) \<Rightarrow> Exited 1 (console_log (''Fatal: '' @ message_of err) w1)
      | (Inr u, w1) \<Rightarrow>
          Running (console_log (''Worker running (schedule: '' @ cronSchedule DRIFT_CONFIG @ '')'')
                     (runDriftCheck e w1)))"

definition services_ok :: "env \<Rightarrow> nat \<Rightarrow> bool" where
  "services_ok e t = (health_ok e t \<and> select1_ok e t)"

section \<open>The API: the latest drift run of a model (api/index.js)\<close>

text \<open>
  The handler of \<open>GET /drift/latest\<close>. \<open>req.query.model_id\<close> is \<open>None\<close> when the
  parameter is absent or empty (falsy), and \<open>Some v\<close> for the model id it denotes otherwise.
  The response is the HTTP status with the JSON body. A failing query gives status 500.
\<close>

datatype json = JNull | JBool bool | JNum real | JStr string | JObj "(string \<times> json) list"

definition DEFAULT_MODEL_ID :: nat where
  "DEFAULT_MODEL_ID = 1"

text \<open>\<open>SELECT * FROM drift_runs WHERE model_id = $1 ORDER BY created_at DESC LIMIT 1\<close>\<close>

definition select_latest_drift_run :: "drift_run list \<Rightarrow> nat \<Rightarrow> drift_run list" where
  "select_latest_drift_run rows modelId =
     take 1 (rev (sort_key dr_created_at (filter (\<lambda>r. dr_model_id r = modelId) rows)))"

definition query_modelId :: "nat option \<Rightarrow> nat" where
  "query_modelId model_id_param =
     (case model_id_param of None \<Rightarrow> DEFAULT_MODEL_ID | Some v \<Rightarrow> v)"

definition drift_latest :: "error option \<Rightarrow> nat option \<Rightarrow> drift_run list \<Rightarrow> nat \<times> json" where
  "drift_latest query_error model_id_param rows =
     (let modelId = query_modelId model_id_param
      in case query_error of
           Some err \<Rightarrow> (500, JObj [(''error'', JStr (message_of err))])
         | None \<Rightarrow>
             (case select_latest_drift_run rows modelId of
                [] \<Rightarrow> (200, JObj [(''status'', JStr ''no_data''),
                                  (''message'', JStr ''No drift runs found'')])
              | d # rest \<Rightarrow>
                  (200, JObj [(''status'', JStr (if dr_drift_detected d then ''drift_detected''
                                                else ''stable'')),
                              (''metrics'', JObj [(''kl_divergence'', JNum (dr_kl_divergence d)),
                                                (''cosine_similarity'', JNum (dr_cosine_similarity d)),
                                                (''drift_detected'', JBool (dr_drift_detected d))]),
                              (''window'', JObj [(''start'', JStr (dr_window_start d)),
                                               (''end'', JStr (dr_window_end d))]),
                              (''created_at'', JNum (real (dr_created_at d)))])))"

definition json_field :: "string \<Rightarrow> json \<Rightarrow> json option" where
  "json_field k j = (case j of JObj kvs \<Rightarrow> map_of kvs k | _ \<Rightarrow> None)"

section \<open>Concrete inputs\<close>

text \<open>
  A service answer with drift, a registry of two models, an environment in which the
  computation service rejects the request for model 1 and becomes healthy after 4000 ms,
  an environment whose health check never succeeds, an initial state, and a table of
  drift runs for two models.
\<close>

definition sample_drift :: drift where
  "sample_drift = \<lparr> window_start = ''t0'', window_end = ''t1'', kl_divergence = 6 / 10,
                    cosine_similarity = 8 / 10, drift_detected = True \<rparr>"

definition sample_models :: "model list" where
  "sample_models = [\<lparr> m_id = 1, m_name = ''alpha'' \<rparr>, \<lparr> m_id = 2, m_name = ''beta'' \<rparr>]"

definition sample_env :: env where
  "sample_env = \<lparr> toFixed = (\<lambda>x digits. ''#''),
                  toISOString = (\<lambda>t. ''T''),
                  health_ok = (\<lambda>t. 4000 \<le> t),
                  select1_ok = (\<lambda>t. True),
                  compute_drift_response =
                    (\<lambda>t rq. if rq_model_id rq = 1 then Inl (Error ''Request failed with status code 500'')
                            else Inr sample_drift),
                  select_models = (\<lambda>t. Inr sample_models),
                  insert_drift_run_error = (\<lambda>t modelId. None),
                  insert_alert_error = (\<lambda>t modelId. None) \<rparr>"

definition down_env :: env where
  "down_env = sample_env \<lparr> health_ok := (\<lambda>t. False) \<rparr>"

definition empty_world :: world where
  "empty_world = \<lparr> now = 0, drift_runs = [], next_drift_run_id = 1, alerts = [], posts = [],
                   console = [] \<rparr>"

definition sample_rows :: "drift_run list" where
  "sample_rows =
     [\<lparr> dr_id = 1, dr_model_id = 1, dr_window_start = ''a'', dr_window_end = ''b'',
        dr_kl_divergence = 6 / 10, dr_cosine_similarity = 8 / 10, dr_drift_detected = True,
        dr_created_at = 100 \<rparr>,
      \<lparr> dr_id = 2, dr_model_id = 2, dr_window_start = ''a'', dr_window_end = ''b'',
        dr_kl_divergence = 1 / 100, dr_cosine_similarity = 99 / 100, dr_drift_detected = False,
        dr_created_at = 100 \<rparr>,
      \<lparr> dr_id = 3, dr_model_id = 1, dr_window_start = ''b'', dr_window_end = ''c'',
        dr_kl_divergence = 1 / 100, dr_cosine_similarity = 99 / 100, dr_drift_detected = False,
        dr_created_at = 400 \<rparr>,
      \<lparr> dr_id = 4, dr_model_id = 2, dr_window_start = ''b'', dr_window_end = ''c'',
        dr_kl_divergence = 7 / 10, dr_cosine_similarity = 5 / 10, dr_drift_detected = True,
        dr_created_at = 400 \<rparr>]"

section \<open>Length check and empty input\<close>

text \<open>
  C5: for inputs of unequal length, both \<open>calculateCosineSimilarity\<close> and
  \<open>calculateKLDivergence\<close> fail with their length-mismatch error (the error the
  specification calls \<open>DimensionMismatch\<close>); the length test is the first branch of
  each function, so nothing is computed from a truncated input and no number is returned.
\<close>

theorem C5_mismatch_fails:
  assumes "length a \<noteq> length b"
  shows "calculateCosineSimilarity a b = Inl (Error ''Vectors must have the same length'')
       \<and> calculateKLDivergence a b = Inl (Error ''Distributions must have the same length'')"
  using assms by (simp add: calculateCosineSimilarity_def calculateKLDivergence_def)

theorem C5_mismatch_fails_witness:
  "length [1, 2, 3 :: real] \<noteq> length [1, 2 :: real]
   \<and> calculateCosineSimilarity [1, 2, 3] [1, 2] = Inl (Error ''Vectors must have the same length'')
   \<and> calculateKLDivergence [1, 2, 3] [1, 2] = Inl (Error ''Distributions must have the same length'')"
  using C5_mismatch_fails [of "[1, 2, 3]" "[1, 2]"] by simp

text \<open>
  C9: on two empty vectors \<open>calculateCosineSimilarity\<close> does not fail: the loop body
  never runs, both magnitudes are \<open>0\<close>, and the function returns \<open>0\<close>.
\<close>

theorem C9_empty_vectors:
  "calculateCosineSimilarity [] [] = Inr 0"
  by (simp add: calculateCosineSimilarity_def cosine_loop_def)

section \<open>The loop of the KL divergence as a sum\<close>






section \<open>A lower bound for the KL divergence\<close>











section \<open>Alerts\<close>

lemma now_console_log [simp]: "now (console_log line w) = now w"
  by (simp add: console_log_def)

lemma posts_console_log [simp]: "posts (console_log line w) = posts w"
  by (simp add: console_log_def)

lemma alerts_console_log [simp]: "alerts (console_log line w) = alerts w"
  by (simp add: console_log_def)

text \<open>
  C2: when the insert succeeds, \<open>createAlert\<close> appends one alert whose severity is
  \<open>critical\<close> if and only if \<open>kl_divergence\<close> exceeds \<open>criticalThreshold\<close>, which is
  \<open>0.5\<close>, and \<open>warning\<close> otherwise; so \<open>0.6\<close> gives \<open>critical\<close> and \<open>0.3\<close> gives
  \<open>warning\<close>. This holds for every drift result, in particular for those with
  \<open>drift_detected = true\<close>, the only ones \<open>checkModel\<close> passes on.
\<close>

theorem C2_alert_severity:
  assumes "insert_alert_error e (now w) modelId = None"
  shows "fst (createAlert e modelId driftRunId d modelName w) = Inr ()
       \<and> (\<exists>a. alerts (snd (createAlert e modelId driftRunId d modelName w)) = alerts w @ [a]
              \<and> al_severity a = (if kl_divergence d > criticalThreshold DRIFT_CONFIG
                                  then ''critical'' else ''warning'')
              \<and> (al_severity a = ''critical'' \<longleftrightarrow> kl_divergence d > criticalThreshold DRIFT_CONFIG)
              \<and> (kl_divergence d = 6 / 10 \<longrightarrow> al_severity a = ''critical'')
              \<and> (kl_divergence d = 3 / 10 \<longrightarrow> al_severity a = ''warning''))
       \<and> criticalThreshold DRIFT_CONFIG = 5 / 10"
  using assms by (simp add: createAlert_def Let_def DRIFT_CONFIG_def)

theorem C2_alert_severity_witness:
  "map al_severity (alerts (snd (createAlert sample_env 2 1 sample_drift ''beta'' empty_world)))
     = [''critical'']
   \<and> map al_severity (alerts (snd (createAlert sample_env 2 1
         (sample_drift\<lparr>kl_divergence := 3 / 10\<rparr>) ''beta'' empty_world)))
     = [''warning'']"
  using C2_alert_severity [of sample_env empty_world 2 1 sample_drift "''beta''"]
        C2_alert_severity [of sample_env empty_world 2 1 "sample_drift\<lparr>kl_divergence := 3 / 10\<rparr>" "''beta''"]
  by (auto simp add: sample_env_def empty_world_def sample_drift_def)

section \<open>One cycle of drift checks\<close>

text \<open>Every call of \<open>checkModel\<close> posts exactly one request, that of its model.\<close>

lemma posts_computeDrift:
  "map rq_model_id (posts (snd (computeDrift e modelId w))) = map rq_model_id (posts w) @ [modelId]"
  by (simp add: computeDrift_def Let_def)

lemma posts_storeDriftRun: "posts (snd (storeDriftRun e modelId d w)) = posts w"
  by (simp add: storeDriftRun_def Let_def split: option.splits)

lemma posts_createAlert: "posts (snd (createAlert e modelId rid d nm w)) = posts w"
  by (simp add: createAlert_def Let_def split: option.splits)

lemma posts_checkModel:
  "map rq_model_id (posts (snd (checkModel e m w))) = map rq_model_id (posts w) @ [m_id m]"
proof -
  obtain r w1 where c: "computeDrift e (m_id m) w = (r, w1)" by (cases "computeDrift e (m_id m) w")
  then have p1: "map rq_model_id (posts w1) = map rq_model_id (posts w) @ [m_id m]"
    using posts_computeDrift [of e "m_id m" w] by simp
  show ?thesis
  proof (cases r)
    case (Inl err)
    with c p1 show ?thesis by (simp add: checkModel_def)
  next
    case (Inr d)
    let ?w2 = "console_log (''['' @ m_name m @ ''] KL='' @ toFixed e (kl_divergence d) 4
                     @ '' cosine='' @ toFixed e (cosine_similarity d) 4
                     @ '' drift='' @ string_of_bool (drift_detected d)) w1"
    obtain s w3 where st: "storeDriftRun e (m_id m) d ?w2 = (s, w3)"
      by (cases "storeDriftRun e (m_id m) d ?w2")
    then have p3: "posts w3 = posts w1"
      using posts_storeDriftRun [of e "m_id m" d ?w2] by simp
    show ?thesis
      using c Inr st p1 p3 posts_createAlert [of e "m_id m" _ d "m_name m" w3]
      by (cases s) (simp_all add: checkModel_def Let_def)
  qed
qed

lemma posts_checkModels_ok:
  "checkModels e ms w = (Inr u, w1) \<Longrightarrow>
     map rq_model_id (posts w1) = map rq_model_id (posts w) @ map m_id ms"
proof (induction ms arbitrary: w)
  case Nil
  then show ?case by simp
next
  case (Cons m ms)
  obtain r wa where cm: "checkModel e m w = (r, wa)" by (cases "checkModel e m w")
  with Cons.prems obtain u' where r: "r = Inr u'" and rest: "checkModels e ms wa = (Inr u, w1)"
    by (cases r) simp_all
  have "map rq_model_id (posts wa) = map rq_model_id (posts w) @ [m_id m]"
    using posts_checkModel [of e m w] cm by simp
  with Cons.IH [OF rest] show ?case by simp
qed

lemma checkModels_stops:
  "checkModels e pre w = (Inr u, w1) \<Longrightarrow> checkModel e m w1 = (Inl err, w2) \<Longrightarrow>
     checkModels e (pre @ m # post) w = (Inl err, w2)"
proof (induction pre arbitrary: w)
  case Nil
  then show ?case by simp
next
  case (Cons a pre)
  obtain r wa where cm: "checkModel e a w = (r, wa)" by (cases "checkModel e a w")
  with Cons.prems(1) obtain u' where r: "r = Inr u'" and rest: "checkModels e pre wa = (Inr u, w1)"
    by (cases r) simp_all
  from Cons.IH [OF rest Cons.prems(2)] cm r show ?case by simp
qed

text \<open>
  C1, as the code has it: when \<open>checkModel\<close> fails for a model of the registry, after
  the models before it were checked, \<open>runDriftCheck\<close> catches the error and prints it,
  and the cycle ends there: the state is the one the failing call left, and the requests
  posted in the cycle are those of the models up to the failing one, none for a model
  after it.
\<close>

theorem C1_failure_ends_cycle:
  assumes "select_models e (now w) = Inr (pre @ m # post)"
    and "checkModels e pre (console_log (''['' @ toISOString e (now w) @ ''] Starting drift check'') w)
           = (Inr (), w1)"
    and "checkModel e m w1 = (Inl err, w2)"
  shows "runDriftCheck e w
           = console_log (''['' @ toISOString e (now w) @ ''] Error: '' @ message_of err) w2
       \<and> map rq_model_id (posts (runDriftCheck e w))
           = map rq_model_id (posts w) @ map m_id pre @ [m_id m]"
proof -
  let ?w0 = "console_log (''['' @ toISOString e (now w) @ ''] Starting drift check'') w"
  have stop: "checkModels e (pre @ m # post) ?w0 = (Inl err, w2)"
    using assms(2,3) by (rule checkModels_stops)
  have run: "runDriftCheck e w
           = console_log (''['' @ toISOString e (now w) @ ''] Error: '' @ message_of err) w2"
    using assms(1) stop by (simp add: runDriftCheck_def Let_def)
  have "map rq_model_id (posts w1) = map rq_model_id (posts w) @ map m_id pre"
    using posts_checkModels_ok [OF assms(2)] by simp
  moreover have "map rq_model_id (posts w2) = map rq_model_id (posts w1) @ [m_id m]"
    using posts_checkModel [of e m w1] assms(3) by simp
  ultimately show ?thesis using run by simp
qed

theorem C1_failure_ends_cycle_witness:
  "map rq_model_id (posts (runDriftCheck sample_env empty_world)) = [1]"
  using C1_failure_ends_cycle [of sample_env empty_world "[]" "\<lparr> m_id = 1, m_name = ''alpha'' \<rparr>"
      "[\<lparr> m_id = 2, m_name = ''beta'' \<rparr>]"
      "console_log (''['' @ toISOString sample_env (now empty_world) @ ''] Starting drift check'') empty_world"
      "Error ''Request failed with status code 500''"
      "snd (checkModel sample_env \<lparr> m_id = 1, m_name = ''alpha'' \<rparr>
         (console_log (''['' @ toISOString sample_env (now empty_world) @ ''] Starting drift check'') empty_world))"]
  by (simp add: sample_env_def sample_models_def empty_world_def checkModel_def computeDrift_def Let_def)

text \<open>
  With the registry \<open>[alpha (1), beta (2)]\<close> and a computation service that rejects the
  request for model 1, \<open>checkModel\<close> fails for \<open>alpha\<close> and the cycle posts no request
  for \<open>beta\<close> and stores no drift run.
\<close>

theorem C1_later_models_skipped_counterexample:
  "fst (checkModel sample_env \<lparr> m_id = 1, m_name = ''alpha'' \<rparr>
          (console_log ''[T] Starting drift check'' empty_world))
     = Inl (Error ''Request failed with status code 500'')
   \<and> select_models sample_env 0 = Inr [\<lparr> m_id = 1, m_name = ''alpha'' \<rparr>, \<lparr> m_id = 2, m_name = ''beta'' \<rparr>]
   \<and> map rq_model_id (posts (runDriftCheck sample_env empty_world)) = [1]
   \<and> drift_runs (runDriftCheck sample_env empty_world) = []"
  by (simp add: sample_env_def sample_models_def empty_world_def runDriftCheck_def checkModel_def
      computeDrift_def console_log_def Let_def)

section \<open>Startup\<close>

lemma wait_loop_ok:
  "services_ok e (now w) \<Longrightarrow>
     wait_loop e delayMs (Suc i) w = (Inr (), console_log ''Services ready'' w)"
  by (simp add: services_ok_def)

lemma wait_loop_retry:
  "\<not> services_ok e (now w) \<Longrightarrow>
     wait_loop e delayMs (Suc i) w
       = wait_loop e delayMs i
           ((console_log (''Retrying... ('' @ decimal i @ '' attempts left)'') w)
              \<lparr>now := now w + delayMs\<rparr>)"
  by (auto simp add: services_ok_def)

lemma wait_loop_success:
  "k < i \<Longrightarrow> \<forall>j<k. \<not> services_ok e (now w + j * delayMs) \<Longrightarrow>
   services_ok e (now w + k * delayMs) \<Longrightarrow>
     fst (wait_loop e delayMs i w) = Inr ()
     \<and> now (snd (wait_loop e delayMs i w)) = now w + k * delayMs"
proof (induction i arbitrary: k w)
  case 0
  then show ?case by simp
next
  case (Suc i)
  show ?case
  proof (cases k)
    case 0
    with Suc.prems(3) show ?thesis by (simp add: wait_loop_ok del: wait_loop.simps)
  next
    case (Suc k')
    let ?w' = "(console_log (''Retrying... ('' @ decimal i @ '' attempts left)'') w)
                 \<lparr>now := now w + delayMs\<rparr>"
    have fail: "\<not> services_ok e (now w)"
      using Suc.prems(2) Suc by (drule_tac x = 0 in spec) simp
    have "k' < i" using Suc.prems(1) Suc by simp
    moreover have "\<forall>j<k'. \<not> services_ok e (now ?w' + j * delayMs)"
    proof (intro allI impI)
      fix j assume "j < k'"
      then have "Suc j < k" using Suc by simp
      then have "\<not> services_ok e (now w + Suc j * delayMs)"
        using Suc.prems(2) by blast
      then show "\<not> services_ok e (now ?w' + j * delayMs)" by (simp add: add.assoc)
    qed
    moreover have "services_ok e (now ?w' + k' * delayMs)"
      using Suc.prems(3) Suc by (simp add: add.assoc)
    ultimately have "fst (wait_loop e delayMs i ?w') = Inr ()
       \<and> now (snd (wait_loop e delayMs i ?w')) = now ?w' + k' * delayMs"
      by (rule Suc.IH)
    with fail Suc show ?thesis by (simp add: wait_loop_retry add.assoc del: wait_loop.simps)
  qed
qed

lemma wait_loop_exhaust:
  "\<forall>j<i. \<not> services_ok e (now w + j * delayMs) \<Longrightarrow>
     fst (wait_loop e delayMs i w) = Inl (Error ''Services unavailable'')
     \<and> now (snd (wait_loop e delayMs i w)) = now w + i * delayMs"
proof (induction i arbitrary: w)
  case 0
  then show ?case by simp
next
  case (Suc i)
  let ?w' = "(console_log (''Retrying... ('' @ decimal i @ '' attempts left)'') w)
               \<lparr>now := now w + delayMs\<rparr>"
  have fail: "\<not> services_ok e (now w)"
    using Suc.prems by (drule_tac x = 0 in spec) simp
  have "\<forall>j<i. \<not> services_ok e (now ?w' + j * delayMs)"
  proof (intro allI impI)
    fix j assume "j < i"
    then have "Suc j < Suc i" by simp
    then have "\<not> services_ok e (now w + Suc j * delayMs)"
      using Suc.prems by blast
    then show "\<not> services_ok e (now ?w' + j * delayMs)" by (simp add: add.assoc)
  qed
  then have "fst (wait_loop e delayMs i ?w') = Inl (Error ''Services unavailable'')
     \<and> now (snd (wait_loop e delayMs i ?w')) = now ?w' + i * delayMs"
    by (rule Suc.IH)
  with fail show ?case by (simp add: wait_loop_retry add.assoc del: wait_loop.simps)
qed

lemma main_outcome:
  "main e w =
     (case fst (waitForServices e 30 2000 w) of
        Inl err \<Rightarrow> Exited 1 (console_log (''Fatal: '' @ message_of err) (snd (waitForServices e 30 2000 w)))
      | Inr u \<Rightarrow> Running (console_log (''Worker running (schedule: '' @ cronSchedule DRIFT_CONFIG @ '')'')
                     (runDriftCheck e (snd (waitForServices e 30 2000 w)))))"
  by (simp add: main_def split: prod.splits sum.splits)

text \<open>
  C6: \<open>waitForServices\<close> makes up to \<open>maxRetries\<close> attempts, \<open>delayMs\<close> apart. If attempt
  \<open>k\<close> is the first on which the health check and the database check both succeed, it
  returns at once, after \<open>k\<close> delays. If every attempt fails it throws
  \<open>Services unavailable\<close>. \<open>main\<close> uses 30 attempts and 2000 ms: in the first case the
  process keeps running, in the second it prints \<open>Fatal: Services unavailable\<close> and exits
  with code 1.
\<close>

theorem C6_startup_retry:
  "(k < maxRetries \<and> (\<forall>j<k. \<not> services_ok e (now w + j * delayMs))
       \<and> services_ok e (now w + k * delayMs)
      \<longrightarrow> fst (waitForServices e maxRetries delayMs w) = Inr ()
          \<and> now (snd (waitForServices e maxRetries delayMs w)) = now w + k * delayMs)
   \<and> ((\<forall>j<maxRetries. \<not> services_ok e (now w + j * delayMs))
      \<longrightarrow> fst (waitForServices e maxRetries delayMs w) = Inl (Error ''Services unavailable'')
          \<and> now (snd (waitForServices e maxRetries delayMs w)) = now w + maxRetries * delayMs)
   \<and> (k < 30 \<and> (\<forall>j<k. \<not> services_ok e (now w + j * 2000)) \<and> services_ok e (now w + k * 2000)
      \<longrightarrow> (\<exists>w'. main e w = Running w'))
   \<and> ((\<forall>j<30. \<not> services_ok e (now w + j * 2000))
      \<longrightarrow> (\<exists>w'. main e w = Exited 1 w' \<and> last (console w') = ''Fatal: Services unavailable''))"
proof (intro conjI impI)
  assume a: "k < maxRetries \<and> (\<forall>j<k. \<not> services_ok e (now w + j * delayMs))
      \<and> services_ok e (now w + k * delayMs)"
  show "fst (waitForServices e maxRetries delayMs w) = Inr ()"
    using a wait_loop_success [of k maxRetries e "console_log ''Waiting for services...'' w" delayMs]
    by (simp add: waitForServices_def)
  show "now (snd (waitForServices e maxRetries delayMs w)) = now w + k * delayMs"
    using a wait_loop_success [of k maxRetries e "console_log ''Waiting for services...'' w" delayMs]
    by (simp add: waitForServices_def)
next
  assume a: "\<forall>j<maxRetries. \<not> services_ok e (now w + j * delayMs)"
  show "fst (waitForServices e maxRetries delayMs w) = Inl (Error ''Services unavailable'')"
    using a wait_loop_exhaust [of maxRetries e "console_log ''Waiting for services...'' w" delayMs]
    by (simp add: waitForServices_def)
  show "now (snd (waitForServices e maxRetries delayMs w)) = now w + maxRetries * delayMs"
    using a wait_loop_exhaust [of maxRetries e "console_log ''Waiting for services...'' w" delayMs]
    by (simp add: waitForServices_def)
next
  assume a: "k < 30 \<and> (\<forall>j<k. \<not> services_ok e (now w + j * 2000)) \<and> services_ok e (now w + k * 2000)"
  have "fst (waitForServices e 30 2000 w) = Inr ()"
    using a wait_loop_success [of k 30 e "console_log ''Waiting for services...'' w" 2000]
    by (simp add: waitForServices_def)
  then show "\<exists>w'. main e w = Running w'" by (simp add: main_outcome)
next
  assume a: "\<forall>j<30. \<not> services_ok e (now w + j * 2000)"
  have "fst (waitForServices e 30 2000 w) = Inl (Error ''Services unavailable'')"
    using a wait_loop_exhaust [of 30 e "console_log ''Waiting for services...'' w" 2000]
    by (simp add: waitForServices_def)
  then show "\<exists>w'. main e w = Exited 1 w' \<and> last (console w') = ''Fatal: Services unavailable''"
    by (simp add: main_outcome console_log_def message_of_def)
qed

theorem C6_startup_retry_witness:
  "fst (waitForServices sample_env 30 2000 empty_world) = Inr ()
   \<and> now (snd (waitForServices sample_env 30 2000 empty_world)) = 4000
   \<and> (\<exists>w'. main sample_env empty_world = Running w')
   \<and> fst (waitForServices down_env 30 2000 empty_world) = Inl (Error ''Services unavailable'')
   \<and> now (snd (waitForServices down_env 30 2000 empty_world)) = 60000
   \<and> (\<exists>w'. main down_env empty_world = Exited 1 w' \<and> last (console w') = ''Fatal: Services unavailable'')"
proof -
  have up: "2 < (30::nat) \<and> (\<forall>j<2. \<not> services_ok sample_env (now empty_world + j * 2000))
      \<and> services_ok sample_env (now empty_world + 2 * 2000)"
    by (auto simp add: services_ok_def sample_env_def empty_world_def)
  have down: "\<forall>j<30. \<not> services_ok down_env (now empty_world + j * 2000)"
    by (simp add: services_ok_def down_env_def sample_env_def)
  show ?thesis
    using up down C6_startup_retry [of 2 30 sample_env empty_world 2000]
      C6_startup_retry [of 2 30 down_env empty_world 2000]
    by (simp add: empty_world_def)
qed

section \<open>The latest drift run\<close>

lemma select_latest_empty:
  "(\<forall>r\<in>set rows. dr_model_id r \<noteq> modelId) \<Longrightarrow> select_latest_drift_run rows modelId = []"
  by (simp add: select_latest_drift_run_def filter_empty_conv)

lemma sorted_le_last: "sorted xs \<Longrightarrow> x \<in> set xs \<Longrightarrow> (x::nat) \<le> last xs"
  by (induction xs) auto

lemma sorted_key_last:
  assumes "sorted (map f ys)" "y \<in> set ys"
  shows "(f y :: nat) \<le> f (last ys)"
proof -
  have ne: "ys \<noteq> []" using assms(2) by auto
  have "f y \<in> set (map f ys)" using assms(2) by simp
  with assms(1) have "f y \<le> last (map f ys)" by (rule sorted_le_last)
  then show ?thesis using ne by (simp add: last_map)
qed

lemma select_latest_nonempty:
  assumes "\<exists>r\<in>set rows. dr_model_id r = modelId"
  shows "\<exists>d. select_latest_drift_run rows modelId = [d] \<and> d \<in> set rows \<and> dr_model_id d = modelId
           \<and> (\<forall>r\<in>set rows. dr_model_id r = modelId \<longrightarrow> dr_created_at r \<le> dr_created_at d)"
proof -
  let ?ys = "sort_key dr_created_at (filter (\<lambda>r. dr_model_id r = modelId) rows)"
  have set_ys: "set ?ys = {r \<in> set rows. dr_model_id r = modelId}" by auto
  from assms obtain r0 where "r0 \<in> set rows" "dr_model_id r0 = modelId" by blast
  then have "r0 \<in> set ?ys" by simp
  then have ne: "?ys \<noteq> []" by (metis empty_iff empty_set)
  have sel: "select_latest_drift_run rows modelId = [last ?ys]"
    using ne by (simp add: select_latest_drift_run_def take_Suc hd_rev)
  have mem: "last ?ys \<in> set ?ys" using ne by (rule last_in_set)
  have "\<forall>r\<in>set ?ys. dr_created_at r \<le> dr_created_at (last ?ys)"
    using sorted_key_last [of dr_created_at ?ys] by simp
  with sel mem set_ys show ?thesis by auto
qed

text \<open>
  C8: \<open>GET /drift/latest\<close> answers with one of three states. When the table has no drift
  run of the model, the body is \<open>status: no_data\<close>. Otherwise the status is that of a
  run of the model with the greatest \<open>created_at\<close>: \<open>drift_detected\<close> when its
  \<open>drift_detected\<close> is true and \<open>stable\<close> when it is false.
\<close>

theorem C8_latest_three_states:
  "((\<forall>r\<in>set rows. dr_model_id r \<noteq> query_modelId p)
      \<longrightarrow> drift_latest None p rows
            = (200, JObj [(''status'', JStr ''no_data''), (''message'', JStr ''No drift runs found'')]))
   \<and> ((\<exists>r\<in>set rows. dr_model_id r = query_modelId p)
      \<longrightarrow> (\<exists>d\<in>set rows.
             dr_model_id d = query_modelId p
             \<and> (\<forall>r\<in>set rows. dr_model_id r = dr_model_id d \<longrightarrow> dr_created_at r \<le> dr_created_at d)
             \<and> fst (drift_latest None p rows) = 200
             \<and> json_field ''status'' (snd (drift_latest None p rows))
                 = Some (JStr (if dr_drift_detected d then ''drift_detected'' else ''stable''))))"
proof (intro conjI impI)
  assume "\<forall>r\<in>set rows. dr_model_id r \<noteq> query_modelId p"
  then show "drift_latest None p rows
      = (200, JObj [(''status'', JStr ''no_data''), (''message'', JStr ''No drift runs found'')])"
    by (simp add: drift_latest_def select_latest_empty)
next
  assume "\<exists>r\<in>set rows. dr_model_id r = query_modelId p"
  from select_latest_nonempty [OF this] obtain d where
    d: "select_latest_drift_run rows (query_modelId p) = [d]"
       "d \<in> set rows" "dr_model_id d = query_modelId p"
       "\<forall>r\<in>set rows. dr_model_id r = query_modelId p \<longrightarrow> dr_created_at r \<le> dr_created_at d"
    by blast
  have "fst (drift_latest None p rows) = 200
      \<and> json_field ''status'' (snd (drift_latest None p rows))
           = Some (JStr (if dr_drift_detected d then ''drift_detected'' else ''stable''))"
    using d(1) by (simp add: drift_latest_def json_field_def)
  with d(2,3,4) show "\<exists>d\<in>set rows.
             dr_model_id d = query_modelId p
             \<and> (\<forall>r\<in>set rows. dr_model_id r = dr_model_id d \<longrightarrow> dr_created_at r \<le> dr_created_at d)
             \<and> fst (drift_latest None p rows) = 200
             \<and> json_field ''status'' (snd (drift_latest None p rows))
                 = Some (JStr (if dr_drift_detected d then ''drift_detected'' else ''stable''))"
    by auto
qed

theorem C8_latest_three_states_witness:
  "drift_latest None (Some 7) sample_rows
     = (200, JObj [(''status'', JStr ''no_data''), (''message'', JStr ''No drift runs found'')])
   \<and> json_field ''status'' (snd (drift_latest None None sample_rows)) = Some (JStr ''stable'')
   \<and> json_field ''status'' (snd (drift_latest None (Some 2) sample_rows)) = Some (JStr ''drift_detected'')"
proof -
  have a: "drift_latest None (Some 7) sample_rows
     = (200, JObj [(''status'', JStr ''no_data''), (''message'', JStr ''No drift runs found'')])"
    using C8_latest_three_states [of sample_rows "Some 7"]
    by (simp add: sample_rows_def query_modelId_def)
  have b: "json_field ''status'' (snd (drift_latest None None sample_rows)) = Some (JStr ''stable'')"
    using C8_latest_three_states [of sample_rows None]
    by (auto simp add: sample_rows_def query_modelId_def DEFAULT_MODEL_ID_def)
  have c: "json_field ''status'' (snd (drift_latest None (Some 2) sample_rows)) = Some (JStr ''drift_detected'')"
    using C8_latest_three_states [of sample_rows "Some 2"]
    by (auto simp add: sample_rows_def query_modelId_def)
  from a b c show ?thesis by simp
qed

end
